theory Spec2Isabelle
  imports Complex_Main
begin

section \<open>JavaScript values\<close>

text \<open>
  The payment gateway (\<^verbatim>\<open>index.js\<close>) handles JSON: the request body parsed by
  \<^verbatim>\<open>express.json()\<close> and the payloads of the three upstream calls made with axios.
  A JavaScript value is one of the JSON shapes or \<^verbatim>\<open>undefined\<close> (a missing field).
  A number is a binary64 value: \<^verbatim>\<open>NaN\<close>, an infinity, or a finite value given as the
  rational it equals (\<^verbatim>\<open>+0\<close> and \<^verbatim>\<open>-0\<close> coincide, both are falsy). An object is an
  association list in which the first binding of a key is the one that counts.
  A string is the list of its UTF-16 code units, and the model covers the strings whose
  code units are below 256 (ASCII and Latin-1), one \<open>char\<close> for each code unit.
\<close>

datatype jsnum = NaN | PosInf | NegInf | Fin rat

datatype jsval =
    JUndefined
  | JNull
  | JBool bool
  | JNum jsnum
  | JStr string
  | JArr "jsval list"
  | JObj "(string \<times> jsval) list"

text \<open>Truthiness, as tested by \<^verbatim>\<open>!x\<close>, \<^verbatim>\<open>x || y\<close> and \<^verbatim>\<open>x ? a : b\<close>.\<close>

fun truthy :: "jsval \<Rightarrow> bool" where
  "truthy JUndefined = False"
| "truthy JNull = False"
| "truthy (JBool b) = b"
| "truthy (JNum n) = (n \<noteq> NaN \<and> n \<noteq> Fin 0)"
| "truthy (JStr s) = (s \<noteq> [])"
| "truthy (JArr xs) = True"
| "truthy (JObj kvs) = True"

text \<open>\<^verbatim>\<open>a || b\<close>: the left operand when it is truthy, the right one otherwise.\<close>

definition js_or :: "jsval \<Rightarrow> jsval \<Rightarrow> jsval" where
  "js_or a b = (if truthy a then a else b)"

text \<open>
  Reading a property. The names this program reads (\<^verbatim>\<open>data\<close>, \<^verbatim>\<open>token\<close>,
  \<^verbatim>\<open>status\<close>, ...) are not inherited from any built-in prototype, so on a string,
  number, boolean or array the read gives \<^verbatim>\<open>undefined\<close>. \<open>member\<close> is the optional
  read \<^verbatim>\<open>v?.k\<close>, which also gives \<^verbatim>\<open>undefined\<close> on \<^verbatim>\<open>null\<close> and \<^verbatim>\<open>undefined\<close>;
  \<open>get_prop\<close> is the plain read \<^verbatim>\<open>v.k\<close>, which throws a TypeError there.
\<close>

fun member :: "jsval \<Rightarrow> string \<Rightarrow> jsval" where
  "member (JObj kvs) k = (case map_of kvs k of Some v \<Rightarrow> v | None \<Rightarrow> JUndefined)"
| "member v k = JUndefined"

definition get_prop :: "jsval \<Rightarrow> string \<Rightarrow> string + jsval" where
  "get_prop v k =
     (if v = JNull then Inl (''Cannot read properties of null (reading '' @ [CHR 0x27] @ k @ [CHR 0x27] @ '')'')
      else if v = JUndefined then Inl (''Cannot read properties of undefined (reading '' @ [CHR 0x27] @ k @ [CHR 0x27] @ '')'')
      else Inr (member v k))"

subsection \<open>String built-ins\<close>

text \<open>
  The code units that are white space for \<^verbatim>\<open>trim\<close> and \<^verbatim>\<open>parseFloat\<close>: tab, line feed,
  vertical tab, form feed, carriage return, space, no-break space (160), the other
  Unicode space separators, the line and paragraph separators, and the byte order mark.
\<close>

definition white_space :: "int \<Rightarrow> bool" where
  "white_space u =
     (u \<in> {9, 10, 11, 12, 13, 32, 160, 5760, 8232, 8233, 8239, 8287, 12288, 65279}
      \<or> (8192 \<le> u \<and> u \<le> 8202))"

definition is_space :: "char \<Rightarrow> bool" where
  "is_space c = white_space (of_char c)"

text \<open>
  \<^verbatim>\<open>toUpperCase\<close> on a code unit below 256. The letters a to z and the Latin-1 letters
  224 to 254 (but not the division sign 247) move down by 32; the sharp s (223) becomes SS;
  the micro sign (181) and the y with diaeresis (255) become the code units 924 and 376,
  which is why the result is a list of code units and not a \<open>string\<close>.
\<close>

definition upper_unit :: "int \<Rightarrow> int list" where
  "upper_unit u =
     (if 97 \<le> u \<and> u \<le> 122 then [u - 32]
      else if u = 181 then [924]
      else if u = 223 then [83, 83]
      else if 224 \<le> u \<and> u \<le> 254 \<and> u \<noteq> 247 then [u - 32]
      else if u = 255 then [376]
      else [u])"

definition toUpperCase :: "string \<Rightarrow> int list" where
  "toUpperCase s = concat (map (\<lambda>c. upper_unit (of_char c)) s)"

definition trim :: "int list \<Rightarrow> int list" where
  "trim s = rev (dropWhile white_space (rev (dropWhile white_space s)))"

text \<open>The code units of a string.\<close>

definition units :: "string \<Rightarrow> int list" where
  "units s = map of_char s"

definition is_digit :: "char \<Rightarrow> bool" where
  "is_digit c = (48 \<le> (of_char c :: int) \<and> (of_char c :: int) \<le> 57)"

definition digit_val :: "char \<Rightarrow> int" where
  "digit_val c = (of_char c :: int) - 48"

definition digits_val :: "string \<Rightarrow> int" where
  "digits_val ds = foldl (\<lambda>a c. 10 * a + digit_val c) 0 ds"

text \<open>Decimal rendering of a non-negative integer, as in \<^verbatim>\<open>`MSH-${timestamp}`\<close>
  and \<^verbatim>\<open>payment.id.toString()\<close>.\<close>

fun digits_of :: "nat \<Rightarrow> string" where
  "digits_of n =
     (if n < 10 then [char_of (48 + n)]
      else digits_of (n div 10) @ [char_of (48 + n mod 10)])"

declare digits_of.simps [simp del]

subsection \<open>Rounding to binary64\<close>

text \<open>
  The Number value of a decimal literal is the binary64 value nearest to it, ties going
  to the even significand; a magnitude that rounds to \<open>2 ^ 1024\<close> or more is
  \<^verbatim>\<open>Infinity\<close>, and one too small for the least subnormal rounds to zero.
  \<open>ipow b e\<close> is \<open>b\<close> to the power \<open>e\<close> for \<open>e \<ge> 0\<close>, by squaring;
  \<open>bit_length n\<close> is the number of binary digits of \<open>n\<close>;
  \<open>binary_exponent q\<close> is the \<open>e\<close> with \<open>2 ^ e \<le> q < 2 ^ (e + 1)\<close>
  for a positive \<open>q\<close>.
\<close>

function ipow :: "rat \<Rightarrow> int \<Rightarrow> rat" where
  "ipow b e =
     (if e \<le> 0 then 1
      else if even e then ipow (b * b) (e div 2)
      else b * ipow (b * b) (e div 2))"
  by pat_completeness auto
termination
  by (relation "measure (\<lambda>(b, e). nat e)") auto

declare ipow.simps [simp del]

function bit_length :: "int \<Rightarrow> int" where
  "bit_length n = (if n \<le> 0 then 0 else 1 + bit_length (n div 2))"
  by pat_completeness auto
termination
  by (relation "measure nat") auto

declare bit_length.simps [simp del]

definition pow2 :: "int \<Rightarrow> rat" where
  "pow2 e = (if 0 \<le> e then ipow 2 e else 1 / ipow 2 (- e))"

definition binary_exponent :: "rat \<Rightarrow> int" where
  "binary_exponent q =
     (let e = bit_length (fst (quotient_of q)) - bit_length (snd (quotient_of q)) - 1
      in if q < pow2 (e + 1) then e else e + 1)"

definition round_half_even :: "rat \<Rightarrow> int" where
  "round_half_even x =
     (let f = \<lfloor>x\<rfloor>; r = x - of_int f
      in if r < 1 / 2 then f
         else if 1 / 2 < r then f + 1
         else if even f then f else f + 1)"

definition to_binary64 :: "rat \<Rightarrow> jsnum" where
  "to_binary64 q =
     (if q \<le> 0 then Fin 0
      else
        (let k = max (binary_exponent q) (- 1022) - 52;
             v = of_int (round_half_even (q / pow2 k)) * pow2 k
         in if pow2 1024 \<le> v then PosInf else Fin v))"

subsection \<open>parseFloat\<close>

text \<open>
  \<^verbatim>\<open>parseFloat\<close> skips leading white space and reads the longest prefix that is a
  decimal literal: an optional sign, then \<^verbatim>\<open>Infinity\<close>, or digits with an optional
  fraction and an optional exponent. With no such prefix the result is \<^verbatim>\<open>NaN\<close>;
  otherwise it is the binary64 value of the literal read.
\<close>

definition exponent_part :: "string \<Rightarrow> int" where
  "exponent_part s =
     (case s of
        [] \<Rightarrow> 0
      | c # r \<Rightarrow>
          if c = CHR ''e'' \<or> c = CHR ''E'' then
            (case r of
               [] \<Rightarrow> 0
             | d # r' \<Rightarrow>
                 if d = CHR ''-'' then - digits_val (takeWhile is_digit r')
                 else if d = CHR ''+'' then digits_val (takeWhile is_digit r')
                 else digits_val (takeWhile is_digit r))
          else 0)"

definition scale10 :: "int \<Rightarrow> int \<Rightarrow> rat" where
  "scale10 m e = (if 0 \<le> e then of_int m * ipow 10 e else of_int m / ipow 10 (- e))"

definition parse_unsigned :: "string \<Rightarrow> rat option" where
  "parse_unsigned s =
     (let ip = takeWhile is_digit s;
          r1 = dropWhile is_digit s;
          fp = (case r1 of [] \<Rightarrow> [] | c # r \<Rightarrow> if c = CHR ''.'' then takeWhile is_digit r else []);
          r2 = (case r1 of [] \<Rightarrow> [] | c # r \<Rightarrow> if c = CHR ''.'' then dropWhile is_digit r else r1)
      in if ip = [] \<and> fp = [] then None
         else Some (scale10 (digits_val (ip @ fp)) (exponent_part r2 - int (length fp))))"

definition parse_magnitude :: "string \<Rightarrow> jsnum" where
  "parse_magnitude s =
     (if take 8 s = ''Infinity'' then PosInf
      else case parse_unsigned s of None \<Rightarrow> NaN | Some q \<Rightarrow> to_binary64 q)"

fun negate :: "jsnum \<Rightarrow> jsnum" where
  "negate NaN = NaN"
| "negate PosInf = NegInf"
| "negate NegInf = PosInf"
| "negate (Fin q) = Fin (- q)"

definition parseFloat_string :: "string \<Rightarrow> jsnum" where
  "parseFloat_string s =
     (case dropWhile is_space s of
        [] \<Rightarrow> NaN
      | c # r \<Rightarrow>
          if c = CHR ''-'' then negate (parse_magnitude r)
          else if c = CHR ''+'' then parse_magnitude r
          else parse_magnitude (c # r))"

text \<open>
  On a value that is not a string \<^verbatim>\<open>parseFloat\<close> first converts it to one. A number
  prints as a literal that reads back as itself. \<^verbatim>\<open>undefined\<close>, \<^verbatim>\<open>null\<close>, booleans and
  objects print as words or \<^verbatim>\<open>[object Object]\<close>, none of which starts a literal. An array
  prints its elements separated by commas (\<^verbatim>\<open>null\<close> and \<^verbatim>\<open>undefined\<close> as nothing), and a
  comma ends a literal, so only the first element is read.
\<close>

fun parseFloat :: "jsval \<Rightarrow> jsnum" where
  "parseFloat (JStr s) = parseFloat_string s"
| "parseFloat (JNum n) = n"
| "parseFloat (JArr []) = NaN"
| "parseFloat (JArr (x # xs)) = parseFloat x"
| "parseFloat v = NaN"

section \<open>The environment of the handler\<close>

text \<open>
  An axios call resolves with a response (\<open>Resp\<close>, carrying \<^verbatim>\<open>response.data\<close>), or
  rejects with an error that has a response (\<open>HttpError\<close>, carrying
  \<^verbatim>\<open>error.response.data\<close>) or with one that has none (\<open>NetError\<close>, carrying
  \<^verbatim>\<open>error.message\<close>).
\<close>

datatype http_result = Resp jsval | HttpError jsval | NetError string

datatype pstatus = Pending | Processing | Completed | Failed

fun status_name :: "pstatus \<Rightarrow> string" where
  "status_name Pending = ''pending''"
| "status_name Processing = ''processing''"
| "status_name Completed = ''completed''"
| "status_name Failed = ''failed''"

text \<open>
  A row of the payment table. \<open>verificationResponse\<close> and \<open>response\<close> hold what
  \<^verbatim>\<open>JSON.stringify\<close> returned. The table is a list of rows and the id of a row
  (\<open>payment_id\<close>) is its position: ids are handed out in order and no row is ever deleted.
\<close>

record payment =
  payment_id :: nat
  transactionId :: string
  nameEnquiryTransactionId :: string
  partnerCode :: jsval
  destBank :: string
  accountNumber :: jsval
  accountName :: jsval
  amount :: jsnum
  narration :: jsval
  status :: pstatus
  verificationResponse :: jsval
  response :: jsval
  eventId :: jsval
  registrationId :: jsval
  completedAt :: "nat option"

text \<open>The \<^verbatim>\<open>data\<close> of a \<^verbatim>\<open>prisma.payment.update\<close>: the status, and for the two
  terminal updates the response and the completion time.\<close>

record update_data =
  u_status :: pstatus
  u_response :: "jsval option"
  u_completedAt :: "nat option"

text \<open>
  The effects of the handler. \<open>NameEnquiryGet\<close> and \<open>CollectionPost\<close> carry the token
  and the parameters or request body as the code hands them to axios, before axios
  serialises them (in JSON an infinite number is written \<^verbatim>\<open>null\<close>).
\<close>

datatype event =
    GenerateId string
  | Sleep nat
  | AuthPost
  | NameEnquiryGet jsval jsval
  | CollectionPost jsval jsval
  | PrismaCreate payment
  | PrismaUpdate nat update_data
  | Respond nat jsval

text \<open>
  Everything the handler reads from outside: the process environment, the answers of
  the three upstream endpoints, the clock at each reading, whether each of the four
  persistence calls throws (\<open>Some\<close> of the error message), and the built-ins
  \<^verbatim>\<open>JSON.stringify\<close>, string conversion in a template literal and \<^verbatim>\<open>parseInt\<close>.
\<close>

record world =
  MTN_BANK_CODE :: "string option"
  AIRTELTIGO_BANK_CODE :: "string option"
  TELECEL_BANK_CODE :: "string option"
  PARTNER_CODE :: "string option"
  auth_post :: http_result
  name_enquiry_get :: "jsval \<Rightarrow> jsval \<Rightarrow> http_result"
  collection_post :: "jsval \<Rightarrow> jsval \<Rightarrow> http_result"
  now_name_enquiry :: nat
  now_collection :: nat
  now_final :: nat
  now_catch :: nat
  create_throws :: "string option"
  update_processing_throws :: "string option"
  update_final_throws :: "string option"
  update_catch_throws :: "string option"
  JSON_stringify :: "jsval \<Rightarrow> jsval"
  String_of :: "jsval \<Rightarrow> string"
  parseInt :: "jsval \<Rightarrow> jsval"

text \<open>
  The state one request runs in: the payment table, the table after each successful
  write so far (starting with the table the request found), the effects in the order
  they happened, and the response once it is sent.
\<close>

record sys =
  db :: "payment list"
  history :: "payment list list"
  trace :: "event list"
  sent :: "(nat \<times> jsval) option"

definition start :: "payment list \<Rightarrow> sys" where
  "start t = \<lparr>db = t, history = [t], trace = [], sent = None\<rparr>"

definition emit :: "event \<Rightarrow> sys \<Rightarrow> sys" where
  "emit e s = s\<lparr>trace := trace s @ [e]\<rparr>"

definition commit :: "payment list \<Rightarrow> sys \<Rightarrow> sys" where
  "commit t s = s\<lparr>db := t, history := history s @ [t]\<rparr>"

text \<open>\<^verbatim>\<open>res.status(code).json(body)\<close>: the response is recorded and logged as an effect;
  sending it does not throw.\<close>

definition respond :: "nat \<Rightarrow> jsval \<Rightarrow> sys \<Rightarrow> sys" where
  "respond code body s = (emit (Respond code body) s)\<lparr>sent := Some (code, body)\<rparr>"

definition env_val :: "string option \<Rightarrow> jsval" where
  "env_val v = (case v of None \<Rightarrow> JUndefined | Some s \<Rightarrow> JStr s)"

text \<open>A value inside a template literal.\<close>

definition to_str :: "world \<Rightarrow> jsval \<Rightarrow> string" where
  "to_str w v = (case v of JStr s \<Rightarrow> s | _ \<Rightarrow> String_of w v)"

subsection \<open>Persistence\<close>

text \<open>\<^verbatim>\<open>prisma.payment.create\<close>: the new row gets the next id. It either throws and
  writes nothing, or appends the row and returns it.\<close>

definition prisma_create :: "string option \<Rightarrow> payment \<Rightarrow> sys \<Rightarrow> (string + payment) \<times> sys" where
  "prisma_create throws d s =
     (let s1 = emit (PrismaCreate d) s in
      case throws of
        Some m \<Rightarrow> (Inl m, s1)
      | None \<Rightarrow> (let p = d\<lparr>payment_id := length (db s)\<rparr> in (Inr p, commit (db s @ [p]) s1)))"

definition apply_update :: "update_data \<Rightarrow> payment \<Rightarrow> payment" where
  "apply_update u p =
     p\<lparr>status := u_status u,
       response := (case u_response u of None \<Rightarrow> response p
                    | Some r \<Rightarrow> if r = JUndefined then response p else r),
       completedAt := (case u_completedAt u of None \<Rightarrow> completedAt p | Some t \<Rightarrow> Some t)\<rparr>"

text \<open>\<^verbatim>\<open>prisma.payment.update({ where: { id }, data })\<close>: throws when the call fails or no
  row has that id, and then writes nothing.\<close>

definition prisma_update :: "string option \<Rightarrow> nat \<Rightarrow> update_data \<Rightarrow> sys \<Rightarrow> (string + payment) \<times> sys" where
  "prisma_update throws i u s =
     (let s1 = emit (PrismaUpdate i u) s in
      case throws of
        Some m \<Rightarrow> (Inl m, s1)
      | None \<Rightarrow>
          if i < length (db s)
          then (let p = apply_update u (db s ! i) in (Inr p, commit ((db s)[i := p]) s1))
          else (Inl ''Record to update not found.'', s1))"

section \<open>Helpers of index.js\<close>

definition generateTransactionID :: "nat \<Rightarrow> string" where
  "generateTransactionID timestamp = ''MSH-'' @ digits_of timestamp"

text \<open>\<^verbatim>\<open>getNetworkBankCode\<close>: a network that is not a string has no
  \<^verbatim>\<open>toUpperCase\<close>, and the call throws a TypeError.\<close>

definition networkMap :: "world \<Rightarrow> (int list \<times> string option) list" where
  "networkMap w =
     [(units ''MTN'', MTN_BANK_CODE w),
      (units ''AIRTELTIGO'', AIRTELTIGO_BANK_CODE w),
      (units ''TELECEL'', TELECEL_BANK_CODE w)]"

definition invalid_network :: "string \<Rightarrow> string" where
  "invalid_network network =
     ''Invalid network: '' @ network @ ''. Supported networks: MTN, AirtelTigo, Telecel''"

definition getNetworkBankCode :: "world \<Rightarrow> jsval \<Rightarrow> string + string" where
  "getNetworkBankCode w network =
     (case network of
        JStr n \<Rightarrow>
          (let networkUpper = trim (toUpperCase n) in
           case map_of (networkMap w) networkUpper of
             Some (Some bankCode) \<Rightarrow>
               if bankCode \<noteq> [] then Inr bankCode else Inl (invalid_network n)
           | _ \<Rightarrow> Inl (invalid_network n))
      | _ \<Rightarrow> Inl ''network.toUpperCase is not a function'')"

text \<open>The message of an upstream error:
  \<^verbatim>\<open>error.response.data?.message || JSON.stringify(error.response.data)\<close>.\<close>

definition upstream_message :: "world \<Rightarrow> jsval \<Rightarrow> string" where
  "upstream_message w d = to_str w (js_or (member d ''message'') (JSON_stringify w d))"

definition extract_token :: "jsval \<Rightarrow> jsval" where
  "extract_token d =
     js_or (member d ''result'')
    (js_or (member d ''token'')
    (js_or (member d ''Token'')
    (js_or (member d ''accessToken'')
    (js_or (member d ''access_token'')
    (js_or (member (member d ''data'') ''token'')
           (member (member d ''data'') ''Token''))))))"

text \<open>\<^verbatim>\<open>authenticate\<close>: the error thrown when no token is found is thrown inside the
  \<^verbatim>\<open>try\<close>, so the \<^verbatim>\<open>catch\<close> wraps it once more.\<close>

definition authenticate :: "world \<Rightarrow> string + jsval" where
  "authenticate w =
     (case auth_post w of
        Resp d \<Rightarrow>
          if truthy (extract_token d) then Inr (extract_token d)
          else Inl (''Authentication error: '' @
                    ''Authentication failed: No token found in response. Response: '' @
                    to_str w (JSON_stringify w d))
      | HttpError d \<Rightarrow> Inl (''Authentication error: '' @ upstream_message w d)
      | NetError m \<Rightarrow> Inl (''Authentication error: '' @ m))"

definition name_enquiry_params :: "jsval \<Rightarrow> string \<Rightarrow> string \<Rightarrow> jsval \<Rightarrow> jsval" where
  "name_enquiry_params partner transactionID bankCode necAccount =
     JObj [(''PartnerCode'', partner),
           (''TransactionID'', JStr transactionID),
           (''BankCode'', JStr bankCode),
           (''NECAccount'', necAccount)]"

definition performNameEnquiry :: "world \<Rightarrow> jsval \<Rightarrow> jsval \<Rightarrow> string \<Rightarrow> string \<Rightarrow> jsval \<Rightarrow> string + jsval" where
  "performNameEnquiry w token partner transactionID bankCode necAccount =
     (case name_enquiry_get w token (name_enquiry_params partner transactionID bankCode necAccount) of
        Resp d \<Rightarrow> Inr d
      | HttpError d \<Rightarrow> Inl (''Name enquiry error: '' @ upstream_message w d)
      | NetError m \<Rightarrow> Inl (''Name enquiry error: '' @ m))"

text \<open>The \<^verbatim>\<open>paymentData\<close> argument of \<^verbatim>\<open>processCollection\<close>.\<close>

record payment_request =
  pd_accountNumber :: jsval
  pd_accountName :: jsval
  pd_amount :: jsval
  pd_transactionID :: string
  pd_narration :: jsval

definition collection_body :: "world \<Rightarrow> payment_request \<Rightarrow> string \<Rightarrow> jsval" where
  "collection_body w paymentData destBank' =
     JObj [(''PartnerCode'', env_val (PARTNER_CODE w)),
           (''DestBank'', JStr destBank'),
           (''Accountnumber'', pd_accountNumber paymentData),
           (''AccountName'', pd_accountName paymentData),
           (''Amount'', pd_amount paymentData),
           (''TransactionID'', JStr (pd_transactionID paymentData)),
           (''narration'', pd_narration paymentData)]"

definition processCollection :: "world \<Rightarrow> jsval \<Rightarrow> payment_request \<Rightarrow> string \<Rightarrow> string + jsval" where
  "processCollection w token paymentData destBank' =
     (case collection_post w token (collection_body w paymentData destBank') of
        Resp d \<Rightarrow> Inr d
      | HttpError d \<Rightarrow> Inl (''Collection error: '' @ upstream_message w d)
      | NetError m \<Rightarrow> Inl (''Collection error: '' @ m))"

section \<open>The /pay handler\<close>

text \<open>The account name is the first truthy of seven reads of the name-enquiry result;
  the first read, \<^verbatim>\<open>nameEnquiryResult.data\<close>, throws when the result is \<^verbatim>\<open>null\<close>.\<close>

definition extract_account_name :: "jsval \<Rightarrow> string + jsval" where
  "extract_account_name r =
     (case get_prop r ''data'' of
        Inl m \<Rightarrow> Inl m
      | Inr d \<Rightarrow>
          Inr (js_or (member d ''nametocredit'')
              (js_or (member d ''NameToCredit'')
              (js_or (member r ''nametocredit'')
              (js_or (member r ''accountName'')
              (js_or (member r ''AccountName'')
              (js_or (member r ''name'')
                     (member r ''Name''))))))))"

definition collectionStatus :: "jsval \<Rightarrow> jsval" where
  "collectionStatus r =
     js_or (member (member r ''message'') ''status'') (member (member r ''data'') ''status'')"

definition isSuccess :: "jsval \<Rightarrow> bool" where
  "isSuccess r = (collectionStatus r = JStr ''000'' \<or> collectionStatus r = JStr ''0'')"

definition default_narration :: "jsval \<Rightarrow> jsval" where
  "default_narration n = js_or n (JStr ''Payment Gateway Transaction'')"

text \<open>The \<^verbatim>\<open>catch\<close> of the handler: a record that was created is marked failed, an
  error of that update is logged and dropped, and the response is 500.\<close>

definition failure_response :: "string \<Rightarrow> jsval" where
  "failure_response message =
     JObj [(''success'', JBool False),
           (''message'', JStr ''Payment processing failed''),
           (''error'', JStr message)]"

definition catch_block :: "world \<Rightarrow> payment option \<Rightarrow> string \<Rightarrow> sys \<Rightarrow> sys" where
  "catch_block w created message s =
     respond 500 (failure_response message)
       (case created of
          None \<Rightarrow> s
        | Some p \<Rightarrow>
            snd (prisma_update (update_catch_throws w) (payment_id p)
                   \<lparr>u_status = Failed,
                    u_response = Some (JSON_stringify w (JObj [(''error'', JStr message)])),
                    u_completedAt = Some (now_catch w)\<rparr> s))"

text \<open>The data of \<^verbatim>\<open>prisma.payment.create\<close>. The id is given by the table.\<close>

definition create_data ::
  "world \<Rightarrow> string \<Rightarrow> string \<Rightarrow> string \<Rightarrow> jsval \<Rightarrow> jsval \<Rightarrow> jsval \<Rightarrow> jsval \<Rightarrow> jsval \<Rightarrow> jsval \<Rightarrow> jsval \<Rightarrow> payment" where
  "create_data w collectionTransactionID nameEnquiryTransactionID bankCode
     accountNumber' accountName' amount' narration' eventId' registrationId' nameEnquiryResult =
     \<lparr>payment_id = 0,
      transactionId = collectionTransactionID,
      nameEnquiryTransactionId = nameEnquiryTransactionID,
      partnerCode = env_val (PARTNER_CODE w),
      destBank = bankCode,
      accountNumber = accountNumber',
      accountName = accountName',
      amount = parseFloat amount',
      narration = default_narration narration',
      status = Pending,
      verificationResponse = JSON_stringify w nameEnquiryResult,
      response = JNull,
      eventId = (if truthy eventId' then parseInt w eventId' else JNull),
      registrationId = (if truthy registrationId' then parseInt w registrationId' else JNull),
      completedAt = None\<rparr>"

definition success_body :: "payment \<Rightarrow> string \<Rightarrow> string \<Rightarrow> jsval \<Rightarrow> jsval \<Rightarrow> jsval" where
  "success_body p nameEnquiryTransactionID collectionTransactionID nameEnquiryResult collectionResult =
     JObj [(''success'', JBool True),
           (''message'', JStr ''Payment processed successfully''),
           (''paymentId'', JStr (digits_of (payment_id p))),
           (''nameEnquiryTransactionID'', JStr nameEnquiryTransactionID),
           (''collectionTransactionID'', JStr collectionTransactionID),
           (''status'', JStr (status_name (status p))),
           (''data'', JObj [(''nameEnquiry'', nameEnquiryResult),
                            (''collection'', collectionResult)])]"

text \<open>From the creation of the record to the response (lines 209 to 274).\<close>

definition persist_and_collect ::
  "world \<Rightarrow> jsval \<Rightarrow> string \<Rightarrow> string \<Rightarrow> string \<Rightarrow> jsval \<Rightarrow> jsval \<Rightarrow> jsval \<Rightarrow> jsval \<Rightarrow> jsval \<Rightarrow> jsval \<Rightarrow> jsval \<Rightarrow> sys \<Rightarrow> sys" where
  "persist_and_collect w token collectionTransactionID nameEnquiryTransactionID bankCode
     accountNumber' accountName' amount' narration' eventId' registrationId' nameEnquiryResult s =
     (case prisma_create (create_throws w)
             (create_data w collectionTransactionID nameEnquiryTransactionID bankCode
                accountNumber' accountName' amount' narration' eventId' registrationId' nameEnquiryResult) s of
        (Inl m, s1) \<Rightarrow> catch_block w None m s1
      | (Inr p, s1) \<Rightarrow>
          (case prisma_update (update_processing_throws w) (payment_id p)
                  \<lparr>u_status = Processing, u_response = None, u_completedAt = None\<rparr> s1 of
             (Inl m, s2) \<Rightarrow> catch_block w (Some p) m s2
           | (Inr p1, s2) \<Rightarrow>
               (let paymentData =
                      \<lparr>pd_accountNumber = accountNumber',
                       pd_accountName = accountName',
                       pd_amount = amount',
                       pd_transactionID = collectionTransactionID,
                       pd_narration = default_narration narration'\<rparr>;
                    s3 = emit (CollectionPost token (collection_body w paymentData bankCode)) s2
                in case processCollection w token paymentData bankCode of
                     Inl m \<Rightarrow> catch_block w (Some p) m s3
                   | Inr collectionResult \<Rightarrow>
                       (case prisma_update (update_final_throws w) (payment_id p)
                               \<lparr>u_status = (if isSuccess collectionResult then Completed else Failed),
                                u_response = Some (JSON_stringify w collectionResult),
                                u_completedAt = Some (now_final w)\<rparr> s3 of
                          (Inl m, s4) \<Rightarrow> catch_block w (Some p) m s4
                        | (Inr p2, s4) \<Rightarrow>
                            respond 200
                              (success_body p2 nameEnquiryTransactionID collectionTransactionID
                                 nameEnquiryResult collectionResult) s4))))"

text \<open>The two transaction ids, taken ten milliseconds apart (lines 157 to 165).\<close>

definition generate_ids :: "world \<Rightarrow> sys \<Rightarrow> sys" where
  "generate_ids w s =
     emit (GenerateId (generateTransactionID (now_collection w)))
       (emit (Sleep 10)
          (emit (GenerateId (generateTransactionID (now_name_enquiry w))) s))"

definition client_error :: "string \<Rightarrow> jsval" where
  "client_error message = JObj [(''success'', JBool False), (''message'', JStr message)]"

text \<open>
  \<^verbatim>\<open>app.post('/pay', ...)\<close>. The request body is the JSON object that
  \<^verbatim>\<open>express.json()\<close> parsed; a field it does not have reads as \<^verbatim>\<open>undefined\<close>.
\<close>

definition pay :: "world \<Rightarrow> (string \<times> jsval) list \<Rightarrow> sys \<Rightarrow> sys" where
  "pay w body s =
     (let accountNumber' = member (JObj body) ''accountNumber'';
          amount' = member (JObj body) ''amount'';
          narration' = member (JObj body) ''narration'';
          network = member (JObj body) ''network'';
          eventId' = member (JObj body) ''eventId'';
          registrationId' = member (JObj body) ''registrationId''
      in if \<not> truthy accountNumber' \<or> \<not> truthy amount' \<or> \<not> truthy network then
           respond 400
             (client_error ''Missing required fields: accountNumber, amount, network'') s
         else
           (let nameEnquiryTransactionID = generateTransactionID (now_name_enquiry w);
                collectionTransactionID = generateTransactionID (now_collection w);
                s1 = generate_ids w s
            in case getNetworkBankCode w network of
                 Inl m \<Rightarrow> respond 400 (client_error m) s1
               | Inr bankCode \<Rightarrow>
                   (let s2 = emit AuthPost s1
                    in case authenticate w of
                         Inl m \<Rightarrow> catch_block w None m s2
                       | Inr token \<Rightarrow>
                           (let s3 = emit (NameEnquiryGet token
                                             (name_enquiry_params (env_val (PARTNER_CODE w))
                                                nameEnquiryTransactionID bankCode accountNumber')) s2
                            in case performNameEnquiry w token (env_val (PARTNER_CODE w))
                                      nameEnquiryTransactionID bankCode accountNumber' of
                                 Inl m \<Rightarrow> catch_block w None m s3
                               | Inr nameEnquiryResult \<Rightarrow>
                                   (case extract_account_name nameEnquiryResult of
                                      Inl m \<Rightarrow> catch_block w None m s3
                                    | Inr accountName' \<Rightarrow>
                                        if \<not> truthy accountName' then
                                          catch_block w None
                                            ''Account name not found in name enquiry response'' s3
                                        else
                                          persist_and_collect w token collectionTransactionID
                                            nameEnquiryTransactionID bankCode accountNumber'
                                            accountName' amount' narration' eventId'
                                            registrationId' nameEnquiryResult s3)))))"

section \<open>Notions used in the properties\<close>

text \<open>The test of line 150: all three required fields are truthy.\<close>

definition passes_validation :: "(string \<times> jsval) list \<Rightarrow> bool" where
  "passes_validation body =
     (truthy (member (JObj body) ''accountNumber'') \<and> truthy (member (JObj body) ''amount'')
      \<and> truthy (member (JObj body) ''network''))"

text \<open>The name-enquiry call as the handler makes it (lines 185 to 191), and the state
  once it has been made.\<close>

definition enquire :: "world \<Rightarrow> (string \<times> jsval) list \<Rightarrow> string \<Rightarrow> jsval \<Rightarrow> string + jsval" where
  "enquire w body bankCode token =
     performNameEnquiry w token (env_val (PARTNER_CODE w))
       (generateTransactionID (now_name_enquiry w)) bankCode (member (JObj body) ''accountNumber'')"

definition enquiry_sent :: "world \<Rightarrow> (string \<times> jsval) list \<Rightarrow> string \<Rightarrow> jsval \<Rightarrow> sys \<Rightarrow> sys" where
  "enquiry_sent w body bankCode token s =
     emit (NameEnquiryGet token
             (name_enquiry_params (env_val (PARTNER_CODE w))
                (generateTransactionID (now_name_enquiry w)) bankCode
                (member (JObj body) ''accountNumber'')))
       (emit AuthPost (generate_ids w s))"


text \<open>A bank code that is unset or empty in the process environment.\<close>

definition unset_or_empty :: "string option \<Rightarrow> bool" where
  "unset_or_empty c = (c = None \<or> c = Some [])"

text \<open>A world in which every upstream call and every write succeeds, and a request.\<close>

definition demo_world :: world where
  "demo_world =
     \<lparr>MTN_BANK_CODE = Some ''300591'', AIRTELTIGO_BANK_CODE = Some ''300592'',
      TELECEL_BANK_CODE = None, PARTNER_CODE = Some ''P1'',
      auth_post = Resp (JObj [(''result'', JStr ''tok'')]),
      name_enquiry_get = (\<lambda>t p. Resp (JObj [(''data'', JObj [(''nametocredit'', JStr ''Ama'')])])),
      collection_post = (\<lambda>t b. Resp (JObj [(''message'', JObj [(''status'', JStr ''000'')])])),
      now_name_enquiry = 1700, now_collection = 1710, now_final = 1720, now_catch = 1730,
      create_throws = None, update_processing_throws = None, update_final_throws = None,
      update_catch_throws = None,
      JSON_stringify = (\<lambda>v. v), String_of = (\<lambda>v. ''[object Object]''), parseInt = (\<lambda>v. v)\<rparr>"

definition demo_body :: "(string \<times> jsval) list" where
  "demo_body = [(''accountNumber'', JStr ''0241234567''), (''amount'', JNum (Fin 50)),
                (''network'', JStr ''MTN'')]"

text \<open>The fields \<^verbatim>\<open>authenticate\<close> is said to probe for the token, in order.\<close>

definition token_probes :: "jsval \<Rightarrow> jsval list" where
  "token_probes d =
     [member d ''result'', member d ''token'', member d ''Token'', member d ''accessToken'',
      member d ''access_token'', member (member d ''data'') ''token'',
      member (member d ''data'') ''Token'']"

text \<open>Worlds in which authentication fails, the name enquiry is rejected, and the name
  enquiry answers without a name.\<close>

definition auth_down :: world where
  "auth_down = demo_world\<lparr>auth_post := NetError ''connect ECONNREFUSED''\<rparr>"

definition enquiry_rejected :: world where
  "enquiry_rejected =
     demo_world\<lparr>name_enquiry_get := (\<lambda>t p. HttpError (JObj [(''message'', JStr ''Invalid account'')]))\<rparr>"

definition enquiry_nameless :: world where
  "enquiry_nameless = demo_world\<lparr>name_enquiry_get := (\<lambda>t p. Resp (JObj [(''status'', JStr ''000'')]))\<rparr>"










text \<open>
  Moving forward along pending, processing, then completed or failed: a row keeps its
  status or advances, and a table keeps its rows, each of them moving forward.
\<close>

definition advances :: "pstatus \<Rightarrow> pstatus \<Rightarrow> bool" where
  "advances a b =
     ((a = Pending \<and> (b = Processing \<or> b = Completed \<or> b = Failed))
      \<or> (a = Processing \<and> (b = Completed \<or> b = Failed)))"

definition row_forward :: "payment \<Rightarrow> payment \<Rightarrow> bool" where
  "row_forward p q = (status q = status p \<or> advances (status p) (status q))"

definition table_forward :: "payment list \<Rightarrow> payment list \<Rightarrow> bool" where
  "table_forward t t' = (length t \<le> length t' \<and> list_all2 row_forward t (take (length t) t'))"

section \<open>The built-ins\<close>

text \<open>\<open>ipow\<close>, \<open>bit_length\<close> and \<open>binary_exponent\<close> compute what they are meant to, and
  the binary64 value of a positive rational is within half a unit in the last place of it.\<close>

lemma ipow_power: "0 \<le> e \<Longrightarrow> ipow b e = b ^ nat e"
proof (induction b e rule: ipow.induct)
  case (1 b e)
  show ?case
  proof (cases "e \<le> 0")
    case True
    with "1.prems" have "e = 0" by simp
    then show ?thesis by (simp only: ipow.simps [of b 0]) simp
  next
    case False
    then have pos: "0 < e" by simp
    have h: "0 \<le> e div 2" using pos by simp
    have sq: "(b * b) ^ n = b ^ (2 * n)" for n
      by (simp only: power_mult power2_eq_square)
    show ?thesis
    proof (cases "even e")
      case True
      then obtain k where k: "e = 2 * k" by (auto elim: evenE)
      with pos have kp: "0 \<le> k" by simp
      have d: "e div 2 = k" using k by simp
      have ne: "nat e = 2 * nat k" using k kp by (simp only: nat_mult_distrib) simp
      have "ipow b e = ipow (b * b) (e div 2)"
        using False True by (subst ipow.simps) (simp only: if_False if_True)
      also have "\<dots> = (b * b) ^ nat (e div 2)"
        using "1.IH"(1) [OF False True h] .
      also have "\<dots> = b ^ nat e"
        by (simp only: d ne sq)
      finally show ?thesis .
    next
      case odd: False
      then obtain k where k: "e = 2 * k + 1" by (auto elim: oddE)
      with pos have kp: "0 \<le> k" by simp
      have d: "e div 2 = k" using k by simp
      have ne: "nat e = Suc (2 * nat k)" using k kp by (simp add: nat_add_distrib nat_mult_distrib)
      have "ipow b e = b * ipow (b * b) (e div 2)"
        using False odd by (subst ipow.simps) (simp only: if_False)
      also have "\<dots> = b * (b * b) ^ nat (e div 2)"
        using "1.IH"(2) [OF False odd h] by (simp only:)
      also have "\<dots> = b ^ nat e"
        by (simp only: d ne sq power_Suc)
      finally show ?thesis .
    qed
  qed
qed


lemma bit_length_nonneg: "0 \<le> bit_length n"
proof (induction n rule: bit_length.induct)
  case (1 n)
  show ?case
  proof (cases "n \<le> 0")
    case True
    then show ?thesis by (subst bit_length.simps) (simp only: if_True order_refl)
  next
    case False
    from "1.IH" [OF False] have "0 \<le> 1 + bit_length (n div 2)" by arith
    then show ?thesis using False by (subst bit_length.simps) (simp only: if_False)
  qed
qed

lemma bit_length_step: "0 < n \<Longrightarrow> bit_length n = 1 + bit_length (n div 2)"
  by (subst bit_length.simps) simp

lemma bit_length_bounds:
  "0 < n \<Longrightarrow> 2 ^ nat (bit_length n - 1) \<le> n \<and> n < 2 ^ nat (bit_length n)"
proof (induction n rule: bit_length.induct)
  case (1 n)
  from "1.prems" have nle: "\<not> n \<le> 0" by simp
  have st: "bit_length n = 1 + bit_length (n div 2)"
    using "1.prems" by (rule bit_length_step)
  show ?case
  proof (cases "n div 2 = 0")
    case True
    with "1.prems" have n1: "n = 1" by presburger
    have "bit_length (n div 2) = 0"
      by (subst bit_length.simps) (simp only: True if_True order_refl)
    with st have "bit_length n = 1" by simp
    then show ?thesis using n1 by simp
  next
    case False
    with "1.prems" have pos: "0 < n div 2" by presburger
    from "1.IH" [OF nle pos]
    have lo: "2 ^ nat (bit_length (n div 2) - 1) \<le> n div 2"
      and hi: "n div 2 < 2 ^ nat (bit_length (n div 2))" by simp_all
    have b1: "1 \<le> bit_length (n div 2)"
      using bit_length_step [OF pos] bit_length_nonneg [of "n div 2 div 2"] by arith
    have e1: "nat (bit_length n - 1) = Suc (nat (bit_length (n div 2) - 1))"
      using st b1 by simp
    have e2: "nat (bit_length n) = Suc (nat (bit_length (n div 2)))"
      using st b1 by simp
    have "2 * (n div 2) \<le> n" by presburger
    with lo have l: "(2::int) ^ nat (bit_length n - 1) \<le> n"
      by (simp add: e1)
    have "n \<le> 2 * (n div 2) + 1" by presburger
    with hi have u: "n < (2::int) ^ nat (bit_length n)"
      by (simp add: e2)
    from l u show ?thesis by simp
  qed
qed


lemma pow2_powi: "pow2 e = 2 powi e"
  by (simp add: pow2_def ipow_power power_int_def power_divide)

lemma int_pow_powi: "0 \<le> k \<Longrightarrow> (of_int (2 ^ nat k) :: rat) = 2 powi k"
  by (simp add: power_int_def)

lemma bit_length_pos: "0 < n \<Longrightarrow> 1 \<le> bit_length n"
  using bit_length_step [of n] bit_length_nonneg [of "n div 2"] by arith

lemma of_int_bounds:
  assumes "0 < n"
  shows "2 powi (bit_length n - 1) \<le> (of_int n :: rat)" and "(of_int n :: rat) < 2 powi bit_length n"
proof -
  from bit_length_bounds [OF assms]
  have lo: "2 ^ nat (bit_length n - 1) \<le> n" and hi: "n < 2 ^ nat (bit_length n)" by simp_all
  from bit_length_pos [OF assms] have b: "0 \<le> bit_length n - 1" "0 \<le> bit_length n" by simp_all
  have "(of_int (2 ^ nat (bit_length n - 1)) :: rat) \<le> of_int n"
    using lo by (simp only: of_int_le_iff)
  then show "2 powi (bit_length n - 1) \<le> (of_int n :: rat)"
    by (simp only: int_pow_powi [OF b(1)])
  have "(of_int n :: rat) < of_int (2 ^ nat (bit_length n))"
    using hi by (simp only: of_int_less_iff)
  then show "(of_int n :: rat) < 2 powi bit_length n"
    by (simp only: int_pow_powi [OF b(2)])
qed

lemma binary_exponent_bounds:
  assumes "0 < q"
  shows "pow2 (binary_exponent q) \<le> q \<and> q < pow2 (binary_exponent q + 1)"
proof -
  obtain p d where pd: "quotient_of q = (p, d)" by force
  then have d: "0 < d" by (rule quotient_of_denom_pos)
  from pd have q: "q = of_int p / of_int d" by (rule quotient_of_div)
  with assms d have p: "0 < p" by (simp add: zero_less_divide_iff)
  let ?e = "bit_length p - bit_length d - 1"
  have two: "(2::rat) \<noteq> 0" by simp
  have "2 powi (bit_length p - 1) / 2 powi bit_length d < (of_int p :: rat) / of_int d"
    using of_int_bounds(1) [OF p] of_int_bounds(2) [OF d] d
    by (intro frac_less2) simp_all
  moreover have "(2::rat) powi (bit_length p - 1) / 2 powi bit_length d = 2 powi ?e"
    by (simp add: power_int_diff power_int_add)
  ultimately have lower: "pow2 ?e < q"
    by (simp only: pow2_powi q)
  have "(of_int p :: rat) / of_int d < 2 powi bit_length p / 2 powi (bit_length d - 1)"
    using of_int_bounds(2) [OF p] of_int_bounds(1) [OF d] p
    by (intro frac_less) simp_all
  moreover have "(2::rat) powi bit_length p / 2 powi (bit_length d - 1) = 2 powi (?e + 1 + 1)"
    by (simp add: power_int_diff power_int_add)
  ultimately have upper: "q < pow2 (?e + 1 + 1)"
    by (simp only: pow2_powi q)
  have e: "binary_exponent q = (if q < pow2 (?e + 1) then ?e else ?e + 1)"
    by (simp add: binary_exponent_def pd Let_def)
  show ?thesis
  proof (cases "q < pow2 (?e + 1)")
    case True
    with lower e show ?thesis by simp
  next
    case False
    with upper e show ?thesis by simp
  qed
qed


lemma round_half_even_near: "\<bar>of_int (round_half_even x) - x\<bar> \<le> 1 / 2"
proof -
  have "of_int \<lfloor>x\<rfloor> \<le> x" and "x < of_int \<lfloor>x\<rfloor> + 1" by linarith+
  then show ?thesis by (auto simp add: round_half_even_def Let_def)
qed

lemma pow2_pos: "0 < pow2 e"
  by (simp add: pow2_powi)

lemma to_binary64_near:
  assumes "0 < q" and "to_binary64 q = Fin v"
  shows "\<bar>v - q\<bar> \<le> pow2 (max (binary_exponent q) (- 1022) - 52) / 2"
proof -
  let ?P = "pow2 (max (binary_exponent q) (- 1022) - 52)"
  have P: "0 < ?P" by (rule pow2_pos)
  from assms have v: "v = of_int (round_half_even (q / ?P)) * ?P"
    by (simp add: to_binary64_def Let_def split: if_splits)
  have "\<bar>of_int (round_half_even (q / ?P)) - q / ?P\<bar> * ?P \<le> (1 / 2) * ?P"
    using round_half_even_near [of "q / ?P"] P by (intro mult_right_mono) simp_all
  moreover have "\<bar>of_int (round_half_even (q / ?P)) - q / ?P\<bar> * ?P
                   = \<bar>(of_int (round_half_even (q / ?P)) - q / ?P) * ?P\<bar>"
    using P by (simp add: abs_mult)
  moreover have "(of_int (round_half_even (q / ?P)) - q / ?P) * ?P = v - q"
    using P by (simp add: v left_diff_distrib)
  ultimately show ?thesis by simp
qed

text \<open>Values read by \<^verbatim>\<open>parseFloat\<close>: a decimal that is rounded, a tie that goes to the
  even significand, and leading white space that includes a no-break space.\<close>

lemma parseFloat_rounds:
  "parseFloat_string ''1e23'' = Fin 99999999999999991611392"
  "parseFloat_string ''0.1'' = Fin (3602879701896397 / 36028797018963968)"
  "parseFloat_string ''9007199254740993'' = Fin 9007199254740992"
  "parseFloat_string ([CHR 0xA0] @ '' 50'') = Fin 50"
  by code_simp+

text \<open>A network is resolved whatever its case and the white space around it, a no-break
  space included.\<close>

lemma network_trimmed:
  "trim (toUpperCase ('' mtn'' @ [CHR 0xA0])) = units ''MTN''"
  "trim (toUpperCase ''AirtelTigo '') = units ''AIRTELTIGO''"
  by code_simp+

section \<open>The paths of the handler\<close>

lemma pay_invalid:
  assumes "\<not> passes_validation body"
  shows "pay w body s =
           respond 400 (client_error ''Missing required fields: accountNumber, amount, network'') s"
  using assms unfolding pay_def passes_validation_def Let_def by simp

lemma pay_unsupported:
  assumes "passes_validation body"
    and "getNetworkBankCode w (member (JObj body) ''network'') = Inl m"
  shows "pay w body s = respond 400 (client_error m) (generate_ids w s)"
  using assms unfolding pay_def passes_validation_def Let_def by simp

lemma pay_auth_fails:
  assumes "passes_validation body"
    and "getNetworkBankCode w (member (JObj body) ''network'') = Inr bankCode"
    and "authenticate w = Inl m"
  shows "pay w body s = catch_block w None m (emit AuthPost (generate_ids w s))"
  using assms unfolding pay_def passes_validation_def Let_def by simp

lemma pay_enquiry_fails:
  assumes "passes_validation body"
    and "getNetworkBankCode w (member (JObj body) ''network'') = Inr bankCode"
    and "authenticate w = Inr token"
    and "enquire w body bankCode token = Inl m"
  shows "pay w body s = catch_block w None m (enquiry_sent w body bankCode token s)"
  using assms unfolding pay_def passes_validation_def enquire_def enquiry_sent_def Let_def by simp

lemma pay_no_name_throws:
  assumes "passes_validation body"
    and "getNetworkBankCode w (member (JObj body) ''network'') = Inr bankCode"
    and "authenticate w = Inr token"
    and "enquire w body bankCode token = Inr r"
    and "extract_account_name r = Inl m"
  shows "pay w body s = catch_block w None m (enquiry_sent w body bankCode token s)"
  using assms unfolding pay_def passes_validation_def enquire_def enquiry_sent_def Let_def by simp

lemma pay_no_name:
  assumes "passes_validation body"
    and "getNetworkBankCode w (member (JObj body) ''network'') = Inr bankCode"
    and "authenticate w = Inr token"
    and "enquire w body bankCode token = Inr r"
    and "extract_account_name r = Inr name"
    and "\<not> truthy name"
  shows "pay w body s =
           catch_block w None ''Account name not found in name enquiry response''
             (enquiry_sent w body bankCode token s)"
  using assms unfolding pay_def passes_validation_def enquire_def enquiry_sent_def Let_def by simp

lemma pay_verified:
  assumes "passes_validation body"
    and "getNetworkBankCode w (member (JObj body) ''network'') = Inr bankCode"
    and "authenticate w = Inr token"
    and "enquire w body bankCode token = Inr r"
    and "extract_account_name r = Inr name"
    and "truthy name"
  shows "pay w body s =
           persist_and_collect w token (generateTransactionID (now_collection w))
             (generateTransactionID (now_name_enquiry w)) bankCode
             (member (JObj body) ''accountNumber'') name (member (JObj body) ''amount'')
             (member (JObj body) ''narration'') (member (JObj body) ''eventId'')
             (member (JObj body) ''registrationId'') r (enquiry_sent w body bankCode token s)"
  using assms unfolding pay_def passes_validation_def enquire_def enquiry_sent_def Let_def by simp


lemmas sys_defs = emit_def commit_def respond_def prisma_create_def prisma_update_def
  catch_block_def persist_and_collect_def Let_def



lemma respond_fields:
  "sent (respond c b s) = Some (c, b)" "db (respond c b s) = db s"
  "history (respond c b s) = history s" "trace (respond c b s) = trace s @ [Respond c b]"
  by (simp_all add: respond_def emit_def)

lemma generate_ids_fields:
  "db (generate_ids w s) = db s" "history (generate_ids w s) = history s"
  "trace (generate_ids w s) =
     trace s @ [GenerateId (generateTransactionID (now_name_enquiry w)), Sleep 10,
                GenerateId (generateTransactionID (now_collection w))]"
  by (simp_all add: generate_ids_def emit_def)

lemma enquiry_sent_fields:
  "db (enquiry_sent w body bankCode token s) = db s"
  "history (enquiry_sent w body bankCode token s) = history s"
  by (simp_all add: enquiry_sent_def generate_ids_def emit_def)

lemma catch_none_fields:
  "sent (catch_block w None m s) = Some (500, failure_response m)"
  "db (catch_block w None m s) = db s" "history (catch_block w None m s) = history s"
  "trace (catch_block w None m s) = trace s @ [Respond 500 (failure_response m)]"
  by (simp_all add: catch_block_def respond_fields)

lemma units_keys:
  "units ''MTN'' \<noteq> units ''AIRTELTIGO''" "units ''MTN'' \<noteq> units ''TELECEL''"
  "units ''AIRTELTIGO'' \<noteq> units ''TELECEL''" "units ''AIRTELTIGO'' \<noteq> units ''MTN''"
  "units ''TELECEL'' \<noteq> units ''MTN''" "units ''TELECEL'' \<noteq> units ''AIRTELTIGO''"
  by code_simp+

lemma network_rejected:
  assumes "trim (toUpperCase n) \<notin> {units ''MTN'', units ''AIRTELTIGO'', units ''TELECEL''}
           \<or> (trim (toUpperCase n) = units ''MTN'' \<and> unset_or_empty (MTN_BANK_CODE w))
           \<or> (trim (toUpperCase n) = units ''AIRTELTIGO'' \<and> unset_or_empty (AIRTELTIGO_BANK_CODE w))
           \<or> (trim (toUpperCase n) = units ''TELECEL'' \<and> unset_or_empty (TELECEL_BANK_CODE w))"
  shows "getNetworkBankCode w (JStr n) = Inl (invalid_network n)"
  using assms
  by (auto simp add: getNetworkBankCode_def networkMap_def unset_or_empty_def Let_def units_keys
      split: option.splits)

text \<open>A network followed by a no-break space is resolved, since \<^verbatim>\<open>trim\<close> strips it.\<close>

lemma nbsp_network_resolved:
  "getNetworkBankCode demo_world (JStr (''MTN'' @ [CHR 0xA0])) = Inr ''300591''"
proof -
  have "trim (toUpperCase (''MTN'' @ [CHR 0xA0])) = units ''MTN''" by code_simp
  then show ?thesis
    by (simp add: getNetworkBankCode_def networkMap_def demo_world_def)
qed

section \<open>Validation\<close>

text \<open>
  C4. When accountNumber, amount or network is missing from the request body, the
  response is 400 with \<^verbatim>\<open>success: false\<close> and the message naming the required fields;
  the table is not written and the response is the only effect: no identifier is
  generated, no upstream call is made and no record is created.
\<close>

theorem missing_field_rejected:
  assumes "map_of body ''accountNumber'' = None \<or> map_of body ''amount'' = None
           \<or> map_of body ''network'' = None"
  shows "sent (pay w body s) =
           Some (400, JObj [(''success'', JBool False),
                  (''message'', JStr ''Missing required fields: accountNumber, amount, network'')])
       \<and> db (pay w body s) = db s
       \<and> history (pay w body s) = history s
       \<and> trace (pay w body s) =
           trace s @ [Respond 400 (JObj [(''success'', JBool False),
                  (''message'', JStr ''Missing required fields: accountNumber, amount, network'')])]"
proof -
  from assms have "\<not> passes_validation body"
    by (auto simp add: passes_validation_def)
  then have "pay w body s =
      respond 400 (client_error ''Missing required fields: accountNumber, amount, network'') s"
    by (rule pay_invalid)
  then show ?thesis by (simp add: respond_fields client_error_def)
qed

theorem missing_field_rejected_witness:
  "(map_of [(''amount'', JNum (Fin 50)), (''network'', JStr ''MTN'')] ''accountNumber'' = None
     \<or> map_of [(''amount'', JNum (Fin 50)), (''network'', JStr ''MTN'')] ''amount'' = None
     \<or> map_of [(''amount'', JNum (Fin 50)), (''network'', JStr ''MTN'')] ''network'' = None)
   \<and> sent (pay demo_world [(''amount'', JNum (Fin 50)), (''network'', JStr ''MTN'')] (start [])) =
       Some (400, JObj [(''success'', JBool False),
              (''message'', JStr ''Missing required fields: accountNumber, amount, network'')])
   \<and> db (pay demo_world [(''amount'', JNum (Fin 50)), (''network'', JStr ''MTN'')] (start [])) = []
   \<and> trace (pay demo_world [(''amount'', JNum (Fin 50)), (''network'', JStr ''MTN'')] (start [])) =
       [Respond 400 (JObj [(''success'', JBool False),
              (''message'', JStr ''Missing required fields: accountNumber, amount, network'')])]"
  using missing_field_rejected
    [of "[(''amount'', JNum (Fin 50)), (''network'', JStr ''MTN'')]" demo_world "start []"]
  by (simp add: start_def)

text \<open>
  C9. When accountNumber, amount or network is present in the body but falsy (the number
  0, the empty string, \<^verbatim>\<open>null\<close>, \<^verbatim>\<open>false\<close>), the request is answered exactly as one
  that lacks the field: 400 with the message naming the required fields, and no other
  effect. The validation tests truthiness, not presence.
\<close>

theorem falsy_field_rejected:
  assumes "(\<exists>v. map_of body ''accountNumber'' = Some v \<and> \<not> truthy v)
         \<or> (\<exists>v. map_of body ''amount'' = Some v \<and> \<not> truthy v)
         \<or> (\<exists>v. map_of body ''network'' = Some v \<and> \<not> truthy v)"
  shows "sent (pay w body s) =
           Some (400, JObj [(''success'', JBool False),
                  (''message'', JStr ''Missing required fields: accountNumber, amount, network'')])
       \<and> db (pay w body s) = db s
       \<and> history (pay w body s) = history s
       \<and> trace (pay w body s) =
           trace s @ [Respond 400 (JObj [(''success'', JBool False),
                  (''message'', JStr ''Missing required fields: accountNumber, amount, network'')])]"
proof -
  from assms have "\<not> passes_validation body"
    by (auto simp add: passes_validation_def)
  then have "pay w body s =
      respond 400 (client_error ''Missing required fields: accountNumber, amount, network'') s"
    by (rule pay_invalid)
  then show ?thesis by (simp add: respond_fields client_error_def)
qed

theorem falsy_field_rejected_witness:
  "((\<exists>v. map_of [(''accountNumber'', JStr ''0241234567''), (''amount'', JNum (Fin 0)),
                  (''network'', JStr ''MTN'')] ''accountNumber'' = Some v \<and> \<not> truthy v)
    \<or> (\<exists>v. map_of [(''accountNumber'', JStr ''0241234567''), (''amount'', JNum (Fin 0)),
                  (''network'', JStr ''MTN'')] ''amount'' = Some v \<and> \<not> truthy v)
    \<or> (\<exists>v. map_of [(''accountNumber'', JStr ''0241234567''), (''amount'', JNum (Fin 0)),
                  (''network'', JStr ''MTN'')] ''network'' = Some v \<and> \<not> truthy v))
   \<and> sent (pay demo_world [(''accountNumber'', JStr ''0241234567''), (''amount'', JNum (Fin 0)),
                  (''network'', JStr ''MTN'')] (start [])) =
       Some (400, JObj [(''success'', JBool False),
              (''message'', JStr ''Missing required fields: accountNumber, amount, network'')])
   \<and> db (pay demo_world [(''accountNumber'', JStr ''0241234567''), (''amount'', JNum (Fin 0)),
                  (''network'', JStr ''MTN'')] (start [])) = []"
  using falsy_field_rejected
    [of "[(''accountNumber'', JStr ''0241234567''), (''amount'', JNum (Fin 0)),
          (''network'', JStr ''MTN'')]" demo_world "start []"]
  by (simp add: start_def)

section \<open>Unsupported network\<close>

text \<open>
  C5 (as amended). A request that passes the field validation and whose network is a
  string which, uppercased and trimmed, is not MTN, AIRTELTIGO or TELECEL, or whose bank
  code is unset or empty, gets a 400 whose message is
  \<^verbatim>\<open>Invalid network: <network>. Supported networks: MTN, AirtelTigo, Telecel\<close>.
  The table is not written, and the only effects are the two generated identifiers and
  the response: no upstream call is made.
\<close>

theorem unsupported_network_rejected:
  assumes "passes_validation body"
    and "member (JObj body) ''network'' = JStr n"
    and "trim (toUpperCase n) \<notin> {units ''MTN'', units ''AIRTELTIGO'', units ''TELECEL''}
         \<or> (trim (toUpperCase n) = units ''MTN'' \<and> unset_or_empty (MTN_BANK_CODE w))
         \<or> (trim (toUpperCase n) = units ''AIRTELTIGO'' \<and> unset_or_empty (AIRTELTIGO_BANK_CODE w))
         \<or> (trim (toUpperCase n) = units ''TELECEL'' \<and> unset_or_empty (TELECEL_BANK_CODE w))"
  shows "sent (pay w body s) =
           Some (400, JObj [(''success'', JBool False),
                            (''message'', JStr (''Invalid network: '' @ n @
                               ''. Supported networks: MTN, AirtelTigo, Telecel''))])
       \<and> db (pay w body s) = db s
       \<and> history (pay w body s) = history s
       \<and> trace (pay w body s) =
           trace s @ [GenerateId (generateTransactionID (now_name_enquiry w)), Sleep 10,
                      GenerateId (generateTransactionID (now_collection w)),
                      Respond 400 (JObj [(''success'', JBool False),
                            (''message'', JStr (''Invalid network: '' @ n @
                               ''. Supported networks: MTN, AirtelTigo, Telecel''))])]"
proof -
  have "getNetworkBankCode w (member (JObj body) ''network'') = Inl (invalid_network n)"
    using assms(2,3) by (simp add: network_rejected)
  with assms(1) have "pay w body s = respond 400 (client_error (invalid_network n)) (generate_ids w s)"
    by (rule pay_unsupported)
  then show ?thesis
    by (simp add: respond_fields generate_ids_fields client_error_def invalid_network_def)
qed

theorem unsupported_network_rejected_witness:
  "passes_validation [(''accountNumber'', JStr ''0241234567''), (''amount'', JNum (Fin 50)),
                      (''network'', JStr ''Vodafone'')]
   \<and> trim (toUpperCase ''Vodafone'') \<notin> {units ''MTN'', units ''AIRTELTIGO'', units ''TELECEL''}
   \<and> sent (pay demo_world [(''accountNumber'', JStr ''0241234567''), (''amount'', JNum (Fin 50)),
                      (''network'', JStr ''Vodafone'')] (start [])) =
       Some (400, JObj [(''success'', JBool False),
                        (''message'', JStr ''Invalid network: Vodafone. Supported networks: MTN, AirtelTigo, Telecel'')])
   \<and> db (pay demo_world [(''accountNumber'', JStr ''0241234567''), (''amount'', JNum (Fin 50)),
                      (''network'', JStr ''Vodafone'')] (start [])) = []"
proof -
  have v: "passes_validation [(''accountNumber'', JStr ''0241234567''), (''amount'', JNum (Fin 50)),
                      (''network'', JStr ''Vodafone'')]"
    by (simp add: passes_validation_def)
  have u: "trim (toUpperCase ''Vodafone'') \<notin> {units ''MTN'', units ''AIRTELTIGO'', units ''TELECEL''}"
    by code_simp
  show ?thesis
    using unsupported_network_rejected [of "[(''accountNumber'', JStr ''0241234567''), (''amount'', JNum (Fin 50)),
                      (''network'', JStr ''Vodafone'')]" "''Vodafone''" demo_world "start []"] v u
    by (simp add: start_def)
qed

text \<open>
  As stated, for every network that is not in the table, the claim fails: the empty
  string is not in the table, but a request whose network is the empty string (with a
  valid accountNumber and amount) is answered by the validation step, and the message
  lists the required fields, not the supported networks.
\<close>

theorem unsupported_network_counterexample:
  "trim (toUpperCase []) \<notin> {units ''MTN'', units ''AIRTELTIGO'', units ''TELECEL''}
   \<and> sent (pay demo_world [(''accountNumber'', JStr ''0241234567''), (''amount'', JNum (Fin 50)),
                           (''network'', JStr [])] (start [])) =
       Some (400, JObj [(''success'', JBool False),
                        (''message'', JStr ''Missing required fields: accountNumber, amount, network'')])"
proof -
  have u: "trim (toUpperCase []) \<notin> {units ''MTN'', units ''AIRTELTIGO'', units ''TELECEL''}"
    by code_simp
  have "\<not> passes_validation [(''accountNumber'', JStr ''0241234567''), (''amount'', JNum (Fin 50)),
                           (''network'', JStr [])]"
    by (simp add: passes_validation_def)
  then show ?thesis using u by (simp add: pay_invalid respond_fields client_error_def)
qed

section \<open>Authentication\<close>

lemma extract_token_find:
  "extract_token d = (case find truthy (token_probes d) of Some t \<Rightarrow> t
                      | None \<Rightarrow> member (member d ''data'') ''Token'')"
  by (simp add: extract_token_def token_probes_def js_or_def)

lemma find_truthy: "find truthy xs = Some t \<Longrightarrow> truthy t"
  by (induction xs) (auto split: if_splits)

lemma find_none_last: "find truthy xs = None \<Longrightarrow> xs \<noteq> [] \<Longrightarrow> \<not> truthy (last xs)"
  by (induction xs) (auto split: if_splits)

text \<open>
  C8 (as amended). \<^verbatim>\<open>authenticate\<close> returns the first truthy value among the fields
  result, token, Token, accessToken, access_token, data.token, data.Token of the response,
  probed in this order. When none is truthy it fails, and it fails when the call itself
  errors: with the upstream payload (its \<^verbatim>\<open>message\<close>, or else the payload serialised) when
  the error carries a response, with the error's own message otherwise.
\<close>

theorem authenticate_first_truthy:
  "authenticate w =
     (case auth_post w of
        Resp d \<Rightarrow>
          (case find truthy (token_probes d) of
             Some t \<Rightarrow> Inr t
           | None \<Rightarrow> Inl (''Authentication error: Authentication failed: No token found in response. Response: ''
                          @ to_str w (JSON_stringify w d)))
      | HttpError d \<Rightarrow>
          Inl (''Authentication error: ''
               @ to_str w (if truthy (member d ''message'') then member d ''message''
                           else JSON_stringify w d))
      | NetError m \<Rightarrow> Inl (''Authentication error: '' @ m))"
proof (cases "auth_post w")
  case (Resp d)
  show ?thesis
  proof (cases "find truthy (token_probes d)")
    case None
    then have "\<not> truthy (last (token_probes d))"
      by (rule find_none_last) (simp add: token_probes_def)
    then have "\<not> truthy (extract_token d)"
      using None by (simp add: extract_token_find token_probes_def)
    then show ?thesis using Resp None by (simp add: authenticate_def)
  next
    case (Some t)
    then have "truthy t" by (rule find_truthy)
    then show ?thesis using Resp Some by (simp add: authenticate_def extract_token_find)
  qed
next
  case (HttpError d)
  then show ?thesis by (simp add: authenticate_def upstream_message_def js_or_def)
next
  case (NetError m)
  then show ?thesis by (simp add: authenticate_def)
qed

text \<open>
  As stated, with the first field present, the claim fails: in the response
  \<^verbatim>\<open>{result: "", token: "abc"}\<close> the field result is present, and the token returned is
  that of the field token.
\<close>

theorem authenticate_first_present_counterexample:
  "member (JObj [(''result'', JStr ''''), (''token'', JStr ''abc'')]) ''result'' = JStr ''''
   \<and> authenticate (demo_world\<lparr>auth_post := Resp (JObj [(''result'', JStr ''''), (''token'', JStr ''abc'')])\<rparr>)
       = Inr (JStr ''abc'')"
  by (simp add: authenticate_def extract_token_def js_or_def)

section \<open>Failures before the record exists\<close>

lemma demo_valid: "passes_validation demo_body"
  by (simp add: passes_validation_def demo_body_def)

text \<open>
  C6. When authentication fails, or the name enquiry fails, or no account name can be
  read from its result (reading it throws, or every probed field is falsy), the response is
  500 with the error message, and the payment table is not written: no record is persisted.
\<close>

theorem upstream_failure_no_record:
  assumes "passes_validation body"
    and "getNetworkBankCode w (member (JObj body) ''network'') = Inr bankCode"
    and "authenticate w = Inl m
         \<or> (\<exists>token. authenticate w = Inr token \<and> enquire w body bankCode token = Inl m)
         \<or> (\<exists>token r. authenticate w = Inr token \<and> enquire w body bankCode token = Inr r
                \<and> extract_account_name r = Inl m)
         \<or> (\<exists>token r name. authenticate w = Inr token \<and> enquire w body bankCode token = Inr r
                \<and> extract_account_name r = Inr name \<and> \<not> truthy name
                \<and> m = ''Account name not found in name enquiry response'')"
  shows "sent (pay w body s) =
           Some (500, JObj [(''success'', JBool False),
                            (''message'', JStr ''Payment processing failed''),
                            (''error'', JStr m)])
       \<and> db (pay w body s) = db s
       \<and> history (pay w body s) = history s"
proof -
  from assms(3) have "\<exists>s'. pay w body s = catch_block w None m s' \<and> db s' = db s \<and> history s' = history s"
  proof (elim disjE exE conjE)
    assume "authenticate w = Inl m"
    with assms(1,2) have "pay w body s = catch_block w None m (emit AuthPost (generate_ids w s))"
      by (rule pay_auth_fails)
    then show ?thesis by (auto simp add: emit_def generate_ids_fields)
  next
    fix token assume "authenticate w = Inr token" "enquire w body bankCode token = Inl m"
    with assms(1,2) have "pay w body s = catch_block w None m (enquiry_sent w body bankCode token s)"
      by (rule pay_enquiry_fails)
    then show ?thesis by (auto simp add: enquiry_sent_fields)
  next
    fix token r assume "authenticate w = Inr token" "enquire w body bankCode token = Inr r"
      "extract_account_name r = Inl m"
    with assms(1,2) have "pay w body s = catch_block w None m (enquiry_sent w body bankCode token s)"
      by (rule pay_no_name_throws)
    then show ?thesis by (auto simp add: enquiry_sent_fields)
  next
    fix token r name assume "authenticate w = Inr token" "enquire w body bankCode token = Inr r"
      "extract_account_name r = Inr name" "\<not> truthy name"
      and m: "m = ''Account name not found in name enquiry response''"
    with assms(1,2) have "pay w body s = catch_block w None ''Account name not found in name enquiry response''
        (enquiry_sent w body bankCode token s)"
      by (intro pay_no_name)
    then show ?thesis using m by (auto simp add: enquiry_sent_fields)
  qed
  then show ?thesis by (auto simp add: catch_none_fields failure_response_def)
qed

theorem upstream_failure_no_record_witness:
  "passes_validation demo_body
   \<and> getNetworkBankCode auth_down (member (JObj demo_body) ''network'') = Inr ''300591''
   \<and> authenticate auth_down = Inl ''Authentication error: connect ECONNREFUSED''
   \<and> sent (pay auth_down demo_body (start [])) =
       Some (500, JObj [(''success'', JBool False),
                        (''message'', JStr ''Payment processing failed''),
                        (''error'', JStr ''Authentication error: connect ECONNREFUSED'')])
   \<and> db (pay auth_down demo_body (start [])) = []
   \<and> authenticate enquiry_rejected = Inr (JStr ''tok'')
   \<and> enquire enquiry_rejected demo_body ''300591'' (JStr ''tok'') = Inl ''Name enquiry error: Invalid account''
   \<and> sent (pay enquiry_rejected demo_body (start [])) =
       Some (500, JObj [(''success'', JBool False),
                        (''message'', JStr ''Payment processing failed''),
                        (''error'', JStr ''Name enquiry error: Invalid account'')])
   \<and> db (pay enquiry_rejected demo_body (start [])) = []
   \<and> extract_account_name (JObj [(''status'', JStr ''000'')]) = Inr JUndefined
   \<and> sent (pay enquiry_nameless demo_body (start [])) =
       Some (500, JObj [(''success'', JBool False),
                        (''message'', JStr ''Payment processing failed''),
                        (''error'', JStr ''Account name not found in name enquiry response'')])
   \<and> db (pay enquiry_nameless demo_body (start [])) = []"
proof -
  have b1: "getNetworkBankCode auth_down (member (JObj demo_body) ''network'') = Inr ''300591''"
    and b2: "getNetworkBankCode enquiry_rejected (member (JObj demo_body) ''network'') = Inr ''300591''"
    and b3: "getNetworkBankCode enquiry_nameless (member (JObj demo_body) ''network'') = Inr ''300591''"
    by code_simp+
  have a1: "authenticate auth_down = Inl ''Authentication error: connect ECONNREFUSED''"
    by (simp add: authenticate_def auth_down_def demo_world_def)
  have a2: "authenticate enquiry_rejected = Inr (JStr ''tok'')"
    and a3: "authenticate enquiry_nameless = Inr (JStr ''tok'')"
    by (simp_all add: authenticate_def extract_token_def js_or_def enquiry_rejected_def
        enquiry_nameless_def demo_world_def)
  have e2: "enquire enquiry_rejected demo_body ''300591'' (JStr ''tok'') = Inl ''Name enquiry error: Invalid account''"
    by (simp add: enquire_def performNameEnquiry_def upstream_message_def js_or_def to_str_def
        enquiry_rejected_def demo_world_def)
  have e3: "enquire enquiry_nameless demo_body ''300591'' (JStr ''tok'') = Inr (JObj [(''status'', JStr ''000'')])"
    by (simp add: enquire_def performNameEnquiry_def enquiry_nameless_def demo_world_def)
  have x3: "extract_account_name (JObj [(''status'', JStr ''000'')]) = Inr JUndefined"
    by (simp add: extract_account_name_def get_prop_def js_or_def)
  note v = demo_valid
  show ?thesis
    using upstream_failure_no_record [of demo_body auth_down "''300591''"
        "''Authentication error: connect ECONNREFUSED''" "start []"]
      upstream_failure_no_record [of demo_body enquiry_rejected "''300591''"
        "''Name enquiry error: Invalid account''" "start []"]
      upstream_failure_no_record [of demo_body enquiry_nameless "''300591''"
        "''Account name not found in name enquiry response''" "start []"]
      v b1 b2 b3 a1 a2 a3 e2 e3 x3
    by (simp add: start_def)
qed

section \<open>From the record to the response\<close>





lemma demo_reaches:
  assumes "MTN_BANK_CODE w = Some ''300591''" and "PARTNER_CODE w = PARTNER_CODE demo_world"
    and "auth_post w = auth_post demo_world" and "name_enquiry_get w = name_enquiry_get demo_world"
  shows "getNetworkBankCode w (member (JObj demo_body) ''network'') = Inr ''300591''"
    and "authenticate w = Inr (JStr ''tok'')"
    and "enquire w demo_body ''300591'' (JStr ''tok'') =
           Inr (JObj [(''data'', JObj [(''nametocredit'', JStr ''Ama'')])])"
proof -
  have "trim (toUpperCase ''MTN'') = units ''MTN''" by code_simp
  then show "getNetworkBankCode w (member (JObj demo_body) ''network'') = Inr ''300591''"
    using assms(1) by (simp add: getNetworkBankCode_def networkMap_def demo_body_def)
  show "authenticate w = Inr (JStr ''tok'')"
    using assms(3) by (simp add: authenticate_def extract_token_def js_or_def demo_world_def)
  show "enquire w demo_body ''300591'' (JStr ''tok'') =
           Inr (JObj [(''data'', JObj [(''nametocredit'', JStr ''Ama'')])])"
    using assms(4) by (simp add: enquire_def performNameEnquiry_def demo_world_def)
qed

lemma demo_name:
  "extract_account_name (JObj [(''data'', JObj [(''nametocredit'', JStr ''Ama'')])]) = Inr (JStr ''Ama'')"
  by (simp add: extract_account_name_def get_prop_def js_or_def)

lemma row_forward_refl: "list_all2 row_forward t t"
  by (simp add: list_all2_conv_all_nth row_forward_def)

lemma table_forward_append: "table_forward t (t @ [p])"
  by (simp add: table_forward_def row_forward_refl)

lemma table_forward_snoc:
  "status q = status p \<or> advances (status p) (status q) \<Longrightarrow> table_forward (t @ [p]) (t @ [q])"
  by (simp add: table_forward_def list_all2_append row_forward_refl row_forward_def)

lemma persist_history:
  assumes "history s = [db s]"
  shows "successively table_forward
           (history (persist_and_collect w token tid nid bankCode acc name amt nar ev reg r s))"
  using assms
  by (auto simp add: sys_defs apply_update_def create_data_def table_forward_append
      table_forward_snoc advances_def split: option.splits sum.splits)

















lemma demo_run:
  assumes "MTN_BANK_CODE w = Some ''300591''" and "PARTNER_CODE w = PARTNER_CODE demo_world"
    and "auth_post w = auth_post demo_world" and "name_enquiry_get w = name_enquiry_get demo_world"
  shows "pay w demo_body s =
           persist_and_collect w (JStr ''tok'') (generateTransactionID (now_collection w))
             (generateTransactionID (now_name_enquiry w)) ''300591''
             (member (JObj demo_body) ''accountNumber'') (JStr ''Ama'')
             (member (JObj demo_body) ''amount'') (member (JObj demo_body) ''narration'')
             (member (JObj demo_body) ''eventId'') (member (JObj demo_body) ''registrationId'')
             (JObj [(''data'', JObj [(''nametocredit'', JStr ''Ama'')])])
             (enquiry_sent w demo_body ''300591'' (JStr ''tok'') s)"
  by (rule pay_verified [OF demo_valid demo_reaches [OF assms] demo_name]) simp

lemma demo_history:
  "map (map status) (history (pay demo_world demo_body (start []))) =
     [[], [Pending], [Processing], [Completed]]"
proof -
  have "isSuccess (JObj [(''message'', JObj [(''status'', JStr ''000'')])])"
    by (simp add: isSuccess_def collectionStatus_def js_or_def)
  then show ?thesis
    by (simp add: demo_run sys_defs enquiry_sent_def generate_ids_def start_def demo_world_def
        processCollection_def apply_update_def create_data_def)
qed


section \<open>The outcome of the collection\<close>






section \<open>The amount\<close>




section \<open>The life of a record\<close>




text \<open>
  C3. Through every write the handler makes, each row of the payment table keeps its
  status or moves forward from pending to processing, completed or failed, or from
  processing to completed or failed: no write sets a row back to pending or processing,
  and a row that is completed or failed keeps its status.
\<close>

theorem status_moves_forward:
  "successively table_forward (history (pay w body (start t)))"
  unfolding pay_def Let_def
  by (auto simp add: respond_fields generate_ids_fields catch_none_fields emit_def start_def
      intro!: persist_history split: sum.splits)

theorem status_moves_forward_witness:
  "successively table_forward (history (pay demo_world demo_body (start [])))
   \<and> map (map status) (history (pay demo_world demo_body (start []))) =
       [[], [Pending], [Processing], [Completed]]"
  using status_moves_forward [of demo_world demo_body "[]"] demo_history by simp

end
